theory Spec2Isabelle
  imports Complex_Main "HOL-Library.Sublist" "HOL-Library.Multiset" "HOL-Library.Word"
begin

unbundle bit_operations_syntax

section \<open>The persisted state\<close>

text \<open>
  The program keeps its state in an SQLite file with two tables. A row of
  \<^verbatim>\<open>products\<close> has the columns \<^verbatim>\<open>id, name, category, quantity, price, added_on\<close>;
  \<^verbatim>\<open>name\<close> is \<^verbatim>\<open>NOT NULL\<close>, the columns \<^verbatim>\<open>category\<close>, \<^verbatim>\<open>quantity\<close> and \<^verbatim>\<open>price\<close>
  may hold NULL, which is \<open>None\<close> here (Python reads it back as \<^verbatim>\<open>None\<close>).
  A text is a list of characters, and \<open>char\<close> has the code points below 256.
  A \<^verbatim>\<open>REAL\<close> value (a finite Python float) is the real number it stands for;
  the store only keeps and compares such values. The arithmetic on floats, which only
  the dashboard does, is a parameter of the dashboard.
  A failure of the storage itself (a file that cannot be opened or written) is not
  part of the model: every statement reaches the engine.
\<close>

text \<open>A text goes to the engine and to the digest in UTF-8: a character below 128 is
  one byte, one from 128 to 255 is two.\<close>

definition encode :: "string \<Rightarrow> nat list" where
  "encode s = concat (map (\<lambda>c. let n = (of_char c :: nat) in
                 if n < 128 then [n] else [192 + n div 64, 128 + n mod 64]) s)"

text \<open>The exception that leaves \<^verbatim>\<open>fetch_products\<close>, which catches nothing.\<close>

datatype error = OperationalError

record product =
  product_id :: int
  name :: string
  category :: "string option"
  quantity :: "int option"
  price :: "real option"
  added_on :: string

record user =
  user_id :: int
  username :: string
  password_hash :: string

text \<open>
  \<open>products_seq\<close> is the entry of \<^verbatim>\<open>sqlite_sequence\<close> for the table
  \<^verbatim>\<open>products\<close>, which \<^verbatim>\<open>AUTOINCREMENT\<close> maintains: the largest id handed out so far.
\<close>

record db =
  products :: "product list"
  products_seq :: int
  users :: "user list"

text \<open>An SQLite \<^verbatim>\<open>INTEGER\<close> is a signed 64-bit number; binding a Python int outside
  this range raises \<^verbatim>\<open>OverflowError\<close>.\<close>

definition sqlite_int :: "int \<Rightarrow> bool" where
  "sqlite_int n \<longleftrightarrow> - (2 ^ 63) \<le> n \<and> n < 2 ^ 63"

definition bindable :: "int option \<Rightarrow> bool" where
  "bindable v = (case v of None \<Rightarrow> True | Some n \<Rightarrow> sqlite_int n)"

text \<open>What the engine guarantees of every file with this schema: both ids are primary
  keys and 64-bit, \<^verbatim>\<open>username\<close> is unique, and \<^verbatim>\<open>sqlite_sequence\<close> is not below
  an id of the table.\<close>

definition schema_ok :: "db \<Rightarrow> bool" where
  "schema_ok d \<longleftrightarrow>
     distinct (map product_id (products d)) \<and>
     (\<forall>r \<in> set (products d). sqlite_int (product_id r) \<and> product_id r \<le> products_seq d) \<and>
     distinct (map user_id (users d)) \<and>
     distinct (map username (users d))"

section \<open>The \<^verbatim>\<open>LIKE\<close> operator\<close>

text \<open>
  The default \<^verbatim>\<open>LIKE\<close> of SQLite: \<^verbatim>\<open>%\<close> matches any sequence of characters,
  \<^verbatim>\<open>_\<close> matches any single character, every other character matches itself, where
  the letters \<^verbatim>\<open>A\<close> to \<^verbatim>\<open>Z\<close> of ASCII are compared regardless of case. The queries of
  the program give no \<^verbatim>\<open>ESCAPE\<close> character.
\<close>

definition ascii_lower :: "char \<Rightarrow> char" where
  "ascii_lower c =
     (let n = (of_char c :: nat) in if 65 \<le> n \<and> n \<le> 90 then char_of (n + 32) else c)"

fun like_match :: "string \<Rightarrow> string \<Rightarrow> bool" where
  "like_match [] [] = True"
| "like_match [] (c # s) = False"
| "like_match (p # ps) [] = (p = CHR ''%'' \<and> like_match ps [])"
| "like_match (p # ps) (c # s) =
     (if p = CHR ''%'' then like_match ps (c # s) \<or> like_match (p # ps) s
      else (p = CHR ''_'' \<or> ascii_lower p = ascii_lower c) \<and> like_match ps s)"

text \<open>
  The engine reads the pattern and the text as C strings, up to the first NUL
  character, and refuses a pattern of more than 50000 bytes with the error
  \<^verbatim>\<open>LIKE or GLOB pattern too complex\<close>, before it looks at the text.
  In SQL's three-valued logic \<^verbatim>\<open>NULL LIKE p\<close> is NULL, and \<^verbatim>\<open>OR\<close> is true as soon
  as one side is true. \<^verbatim>\<open>WHERE\<close> keeps a row when the condition is true, and the
  statement fails when the condition fails on a row.
\<close>

definition c_string :: "string \<Rightarrow> string" where
  "c_string s = takeWhile (\<lambda>c. c \<noteq> CHR 0x00) s"

definition sql_like :: "string option \<Rightarrow> string \<Rightarrow> error + bool option" where
  "sql_like v pat =
     (if 50000 < length (encode pat) then Inl OperationalError
      else Inr (case v of None \<Rightarrow> None
                | Some s \<Rightarrow> Some (like_match (c_string pat) (c_string s))))"

definition sql_or :: "bool option \<Rightarrow> bool option \<Rightarrow> bool option" where
  "sql_or a b =
     (if a = Some True \<or> b = Some True then Some True
      else if a = Some False \<and> b = Some False then Some False
      else None)"

text \<open>The condition \<^verbatim>\<open>name LIKE ? OR category LIKE ?\<close> on a row.\<close>

definition name_or_category_like :: "string \<Rightarrow> product \<Rightarrow> error + bool option" where
  "name_or_category_like like r =
     (case sql_like (Some (name r)) like of
        Inl e \<Rightarrow> Inl e
      | Inr a \<Rightarrow>
          (case sql_like (category r) like of
             Inl e \<Rightarrow> Inl e
           | Inr b \<Rightarrow> Inr (sql_or a b)))"

fun sql_where :: "('r \<Rightarrow> error + bool option) \<Rightarrow> 'r list \<Rightarrow> error + 'r list" where
  "sql_where cond [] = Inr []"
| "sql_where cond (r # rows) =
     (case cond r of
        Inl e \<Rightarrow> Inl e
      | Inr b \<Rightarrow>
          (case sql_where cond rows of
             Inl e \<Rightarrow> Inl e
           | Inr out \<Rightarrow> Inr (if b = Some True then r # out else out)))"

definition order_by_id_desc :: "product list \<Rightarrow> product list" where
  "order_by_id_desc rows = rev (sort_key product_id rows)"

section \<open>Product queries and mutations\<close>

text \<open>\<^verbatim>\<open>fetch_products\<close> returns the rows, or the exception of the engine leaves it.\<close>

definition fetch_products :: "db \<Rightarrow> string \<Rightarrow> error + product list" where
  "fetch_products d search_text =
     (if search_text \<noteq> [] then
        let like = ''%'' @ search_text @ ''%'' in
        case sql_where (name_or_category_like like) (products d) of
          Inl e \<Rightarrow> Inl e
        | Inr rows \<Rightarrow> Inr (order_by_id_desc rows)
      else Inr (order_by_id_desc (products d)))"

text \<open>
  \<^verbatim>\<open>AUTOINCREMENT\<close>: the new id is one more than the largest id the table holds or
  has ever held; when that is the largest 64-bit number the insertion fails
  (\<^verbatim>\<open>SQLITE_FULL\<close>).
\<close>

definition next_rowid :: "db \<Rightarrow> int" where
  "next_rowid d = fold max (map product_id (products d)) (products_seq d) + 1"

text \<open>
  Each mutation returns the boolean the Python function returns and the new state.
  Every exception of the statement is caught and turned into \<open>False\<close>, and the state
  is then the old one. \<open>now\<close> is the formatted reading of the clock.
\<close>

definition insert_product ::
  "string \<Rightarrow> db \<Rightarrow> string option \<Rightarrow> string option \<Rightarrow> int option \<Rightarrow> real option \<Rightarrow> bool \<times> db" where
  "insert_product now d nm cat qty pr =
     (if \<not> bindable qty then (False, d)
      else case nm of
        None \<Rightarrow> (False, d)
      | Some n \<Rightarrow>
          let i = next_rowid d in
          if \<not> sqlite_int i then (False, d)
          else (True, d\<lparr>products := products d @
                  [\<lparr>product_id = i, name = n, category = cat, quantity = qty,
                    price = pr, added_on = now\<rparr>],
                 products_seq := i\<rparr>))"

definition update_product ::
  "db \<Rightarrow> int \<Rightarrow> string option \<Rightarrow> string option \<Rightarrow> int option \<Rightarrow> real option \<Rightarrow> bool \<times> db" where
  "update_product d i nm cat qty pr =
     (if \<not> bindable qty \<or> \<not> sqlite_int i then (False, d)
      else if i \<notin> set (map product_id (products d)) then (True, d)
      else case nm of
        None \<Rightarrow> (False, d)
      | Some n \<Rightarrow>
          (True, d\<lparr>products :=
             map (\<lambda>r. if product_id r = i
                       then r\<lparr>name := n, category := cat, quantity := qty, price := pr\<rparr>
                       else r) (products d)\<rparr>))"

definition delete_product :: "db \<Rightarrow> int \<Rightarrow> bool \<times> db" where
  "delete_product d i =
     (if \<not> sqlite_int i then (False, d)
      else (True, d\<lparr>products := filter (\<lambda>r. product_id r \<noteq> i) (products d)\<rparr>))"

section \<open>The dashboard\<close>

text \<open>Python's \<^verbatim>\<open>x or d\<close> on a value read from a nullable column: \<^verbatim>\<open>None\<close>, \<^verbatim>\<open>0\<close>,
  \<^verbatim>\<open>0.0\<close> and the empty text are falsy and give \<open>d\<close>.\<close>

definition int_or :: "int option \<Rightarrow> int \<Rightarrow> int" where
  "int_or v d = (case v of None \<Rightarrow> d | Some n \<Rightarrow> if n = 0 then d else n)"

definition float_or :: "real option \<Rightarrow> real \<Rightarrow> real" where
  "float_or v d = (case v of None \<Rightarrow> d | Some x \<Rightarrow> if x = 0 then d else x)"

definition text_or :: "string option \<Rightarrow> string \<Rightarrow> string" where
  "text_or v d = (case v of None \<Rightarrow> d | Some s \<Rightarrow> if s = [] then d else s)"

text \<open>\<^verbatim>\<open>sum\<close> over integers adds from the left, starting at 0.\<close>

definition py_sum :: "int list \<Rightarrow> int" where
  "py_sum xs = foldl (+) 0 xs"

text \<open>
  The arithmetic of Python's floats is not fixed here. Its two operations of the
  dashboard are parameters: \<open>int_times q p\<close> is \<^verbatim>\<open>q * p\<close> for an int and a float,
  \<open>float_sum xs\<close> is \<^verbatim>\<open>sum(xs)\<close> over such products (the int 0 when there is none).
  Their rounding, their overflow and the order and method of the summation are those
  of the interpreter.
\<close>

record ('f, 'v) py_float =
  int_times :: "int \<Rightarrow> real \<Rightarrow> 'f"
  float_sum :: "'f list \<Rightarrow> 'v"

text \<open>A \<^verbatim>\<open>Counter\<close> is a dictionary, which keeps its keys in the order of their first
  insertion: an association list here.\<close>

fun counter_add :: "(string \<times> nat) list \<Rightarrow> string \<Rightarrow> (string \<times> nat) list" where
  "counter_add [] k = [(k, 1)]"
| "counter_add ((k', n) # kvs) k =
     (if k' = k then (k', n + 1) # kvs else (k', n) # counter_add kvs k)"

definition Counter :: "string list \<Rightarrow> (string \<times> nat) list" where
  "Counter xs = foldl counter_add [] xs"

text \<open>\<^verbatim>\<open>most_common(n)\<close> is \<^verbatim>\<open>sorted(items, key=count, reverse=True)[:n]\<close>; the sort
  is stable, so entries of equal count stay in the order of the dictionary.\<close>

definition most_common :: "nat \<Rightarrow> (string \<times> nat) list \<Rightarrow> (string \<times> nat) list" where
  "most_common n c = take n (sort_key (\<lambda>kv. - int (snd kv)) c)"

record 'v dashboard =
  total_products :: nat
  total_quantity :: int
  total_value :: 'v
  top_counts :: "(string \<times> nat) list"

definition update_dashboard :: "('f, 'v) py_float \<Rightarrow> db \<Rightarrow> error + 'v dashboard" where
  "update_dashboard fl d =
     (case fetch_products d [] of
        Inl e \<Rightarrow> Inl e
      | Inr rows \<Rightarrow>
          Inr \<lparr>total_products = length rows,
               total_quantity = py_sum (map (\<lambda>r. int_or (quantity r) 0) rows),
               total_value =
                 float_sum fl (map (\<lambda>r. int_times fl (int_or (quantity r) 0)
                                          (float_or (price r) 0)) rows),
               top_counts =
                 most_common 8
                   (Counter (map (\<lambda>r. text_or (category r) ''Uncategorized'') rows))\<rparr>)"

section \<open>The digest\<close>

text \<open>
  \<^verbatim>\<open>hashlib.sha256(p.encode()).hexdigest()\<close>: the text is encoded in UTF-8 (a
  character below 128 is one byte, one from 128 to 255 is two), hashed with SHA-256 as
  FIPS 180-4 defines it, on 32-bit words, and written as 64 lower-case hexadecimal
  digits.
\<close>

type_synonym word32 = "32 word"

definition K256 :: "word32 list" where
  "K256 =
   [1116352408, 1899447441, 3049323471, 3921009573, 961987163, 1508970993, 2453635748,
    2870763221, 3624381080, 310598401, 607225278, 1426881987, 1925078388, 2162078206,
    2614888103, 3248222580, 3835390401, 4022224774, 264347078, 604807628, 770255983,
    1249150122, 1555081692, 1996064986, 2554220882, 2821834349, 2952996808, 3210313671,
    3336571891, 3584528711, 113926993, 338241895, 666307205, 773529912, 1294757372,
    1396182291, 1695183700, 1986661051, 2177026350, 2456956037, 2730485921, 2820302411,
    3259730800, 3345764771, 3516065817, 3600352804, 4094571909, 275423344, 430227734,
    506948616, 659060556, 883997877, 958139571, 1322822218, 1537002063, 1747873779,
    1955562222, 2024104815, 2227730452, 2361852424, 2428436474, 2756734187, 3204031479,
    3329325298]"

definition H256 :: "word32 list" where
  "H256 =
   [1779033703, 3144134277, 1013904242, 2773480762, 1359893119, 2600822924, 528734635,
    1541459225]"

definition rotr :: "nat \<Rightarrow> word32 \<Rightarrow> word32" where
  "rotr n x = drop_bit n x OR push_bit (32 - n) x"

definition Ch :: "word32 \<Rightarrow> word32 \<Rightarrow> word32 \<Rightarrow> word32" where
  "Ch x y z = (x AND y) XOR (NOT x AND z)"

definition Maj :: "word32 \<Rightarrow> word32 \<Rightarrow> word32 \<Rightarrow> word32" where
  "Maj x y z = (x AND y) XOR (x AND z) XOR (y AND z)"

definition Sigma0 :: "word32 \<Rightarrow> word32" where
  "Sigma0 x = rotr 2 x XOR rotr 13 x XOR rotr 22 x"

definition Sigma1 :: "word32 \<Rightarrow> word32" where
  "Sigma1 x = rotr 6 x XOR rotr 11 x XOR rotr 25 x"

definition sigma0 :: "word32 \<Rightarrow> word32" where
  "sigma0 x = rotr 7 x XOR rotr 18 x XOR drop_bit 3 x"

definition sigma1 :: "word32 \<Rightarrow> word32" where
  "sigma1 x = rotr 17 x XOR rotr 19 x XOR drop_bit 10 x"

definition be_bytes8 :: "nat \<Rightarrow> nat list" where
  "be_bytes8 n = map (\<lambda>k. n div 2 ^ k mod 256) [56, 48, 40, 32, 24, 16, 8, 0]"

definition pad :: "nat list \<Rightarrow> nat list" where
  "pad m = m @ [128] @ replicate ((119 - length m mod 64) mod 64) 0 @ be_bytes8 (8 * length m)"

fun words_of :: "nat list \<Rightarrow> word32 list" where
  "words_of (a # b # c # d # bs) =
     word_of_nat (((a * 256 + b) * 256 + c) * 256 + d) # words_of bs"
| "words_of _ = []"

fun blocks_of :: "nat \<Rightarrow> word32 list \<Rightarrow> word32 list list" where
  "blocks_of 0 ws = []"
| "blocks_of (Suc n) ws = take 16 ws # blocks_of n (drop 16 ws)"

fun schedule :: "nat \<Rightarrow> word32 list \<Rightarrow> word32 list" where
  "schedule 0 w = w"
| "schedule (Suc n) w =
     schedule n ((sigma1 (w ! 1) + w ! 6 + sigma0 (w ! 14) + w ! 15) # w)"

fun round256 :: "word32 list \<Rightarrow> word32 \<times> word32 \<Rightarrow> word32 list" where
  "round256 [a, b, c, d, e, f, g, h] (k, w) =
     (let t1 = h + Sigma1 e + Ch e f g + k + w;
          t2 = Sigma0 a + Maj a b c
      in [t1 + t2, a, b, c, d + t1, e, f, g])"
| "round256 s _ = s"

definition compress :: "word32 list \<Rightarrow> word32 list \<Rightarrow> word32 list" where
  "compress hs block =
     map2 (+) hs (foldl round256 hs (zip K256 (rev (schedule 48 (rev block)))))"

definition sha256 :: "nat list \<Rightarrow> word32 list" where
  "sha256 m = (let p = pad m in foldl compress H256 (blocks_of (length p div 64) (words_of p)))"

definition hex_digit :: "nat \<Rightarrow> char" where
  "hex_digit n = ''0123456789abcdef'' ! n"

definition hex_word :: "word32 \<Rightarrow> string" where
  "hex_word w = map (\<lambda>k. hex_digit (unat w div 2 ^ k mod 16)) [28, 24, 20, 16, 12, 8, 4, 0]"

definition hexdigest :: "word32 list \<Rightarrow> string" where
  "hexdigest ws = concat (map hex_word ws)"

section \<open>Credentials\<close>

text \<open>
  \<^verbatim>\<open>CREATE TABLE IF NOT EXISTS\<close> leaves an existing table alone and makes a missing
  one empty, so a file without tables is the state with no rows. \<^verbatim>\<open>INSERT OR IGNORE\<close>
  skips the row when its id or its username is taken.
\<close>

definition empty_file :: db where
  "empty_file = \<lparr>products = [], products_seq = 0, users = []\<rparr>"

definition init_db :: "db \<Rightarrow> db" where
  "init_db d =
     (let default_username = ''admin''; default_password = ''admin123'';
          hashed = hexdigest (sha256 (encode default_password)) in
      if \<exists>u \<in> set (users d). user_id u = 1 \<or> username u = default_username then d
      else d\<lparr>users := users d @
             [\<lparr>user_id = 1, username = default_username, password_hash = hashed\<rparr>]\<rparr>)"

definition check_credentials :: "db \<Rightarrow> string \<Rightarrow> string \<Rightarrow> bool" where
  "check_credentials d usr password =
     (let hashed = hexdigest (sha256 (encode password));
          row = find (\<lambda>u. username u = usr \<and> password_hash u = hashed) (users d)
      in row \<noteq> None)"

section \<open>Sequences of store operations\<close>

datatype store_op =
    Insert string "string option" "string option" "int option" "real option"
  | Update int "string option" "string option" "int option" "real option"
  | Delete int

fun step :: "db \<Rightarrow> store_op \<Rightarrow> db" where
  "step d (Insert now nm cat qty pr) = snd (insert_product now d nm cat qty pr)"
| "step d (Update i nm cat qty pr) = snd (update_product d i nm cat qty pr)"
| "step d (Delete i) = snd (delete_product d i)"

definition run :: "db \<Rightarrow> store_op list \<Rightarrow> db" where
  "run d ops = foldl step d ops"


text \<open>
  The words of the specification for the chart: the keys of a list in the order in
  which they are first met, the label under which a product is counted (a missing or
  empty category is \<^verbatim>\<open>Uncategorized\<close>), and the number of products of a label.
\<close>

definition first_seen :: "'a list \<Rightarrow> 'a list" where
  "first_seen xs = rev (remdups (rev xs))"

definition category_label :: "product \<Rightarrow> string" where
  "category_label r =
     (case category r of None \<Rightarrow> ''Uncategorized''
      | Some c \<Rightarrow> if c = [] then ''Uncategorized'' else c)"

definition label_count :: "db \<Rightarrow> string \<Rightarrow> nat" where
  "label_count d k = length (filter (\<lambda>r. category_label r = k) (products d))"





text \<open>A store with one product, for the examples.\<close>

definition widget_db :: db where
  "widget_db =
     snd (insert_product ''2024-01-01 10:00:00'' empty_file
            (Some ''Widget A'') (Some ''Tools'') (Some 10) (Some 2.5))"

text \<open>The store of the scenario: three insertions into the empty store.\<close>

definition scenario_db :: db where
  "scenario_db = run empty_file
     [Insert ''2024-01-01 10:00:00'' (Some ''Widget A'') (Some ''Tools'') (Some 10) (Some 2.5),
      Insert ''2024-01-01 10:00:01'' (Some ''Widget B'') (Some ''Tools'') (Some 5) (Some 3),
      Insert ''2024-01-01 10:00:02'' (Some ''Gadget'') (Some ''Electronics'') (Some 1) (Some 100)]"


text \<open>A store with eleven products under nine labels.\<close>

definition crowded_db :: db where
  "crowded_db = run empty_file
     [Insert ''t1'' (Some ''P1'') (Some ''A'') (Some 1) (Some 1),
      Insert ''t2'' (Some ''P2'') (Some ''B'') (Some 2) (Some 1),
      Insert ''t3'' (Some ''P3'') (Some ''B'') (Some 3) (Some 1),
      Insert ''t4'' (Some ''P4'') (Some ''C'') (Some 4) (Some 1),
      Insert ''t5'' (Some ''P5'') (Some ''D'') (Some 5) (Some 1),
      Insert ''t6'' (Some ''P6'') (Some ''E'') (Some 6) (Some 1),
      Insert ''t7'' (Some ''P7'') (Some ''F'') (Some 7) (Some 1),
      Insert ''t8'' (Some ''P8'') (Some ''G'') (Some 8) (Some 1),
      Insert ''t9'' (Some ''P9'') (Some ''H'') (Some 9) (Some 1),
      Insert ''t10'' (Some ''P10'') (Some []) (Some 10) (Some 1),
      Insert ''t11'' (Some ''P11'') None (Some 11) (Some 1)]"

section \<open>Facts about the queries\<close>

lemma like_match_percents: "like_match ''%%%'' s"
  by (induction s) auto

lemma widget_db_products:
  "products widget_db =
     [\<lparr>product_id = 1, name = ''Widget A'', category = Some ''Tools'', quantity = Some 10,
       price = Some 2.5, added_on = ''2024-01-01 10:00:00''\<rparr>]"
  by (simp add: widget_db_def insert_product_def empty_file_def bindable_def sqlite_int_def
      next_rowid_def)

lemma sql_where_total:
  assumes "\<And>r. r \<in> set rows \<Longrightarrow> cond r = Inr (f r)"
  shows "sql_where cond rows = Inr (filter (\<lambda>r. f r = Some True) rows)"
  using assms by (induction rows) simp_all

lemma sql_where_Inr:
  "sql_where cond rows = Inr out \<Longrightarrow> out = filter (\<lambda>r. cond r = Inr (Some True)) rows"
  by (induction rows arbitrary: out) (auto split: sum.splits if_splits)





lemma fetch_products_all: "fetch_products d [] = Inr (order_by_id_desc (products d))"
  by (simp add: fetch_products_def)

lemma sorted_desc_order_by_id:
  assumes "distinct (map product_id rows)"
  shows "sorted_wrt (>) (map product_id (order_by_id_desc rows))"
proof -
  have "sorted_wrt (<) (map product_id (sort_key product_id rows))"
    using assms by (simp add: strict_sorted_iff distinct_map)
  then show ?thesis
    by (simp add: order_by_id_desc_def rev_map [symmetric] sorted_wrt_rev)
qed

lemma scenario_db_products:
  "products scenario_db =
    [\<lparr>product_id = 1, name = ''Widget A'', category = Some ''Tools'', quantity = Some 10,
       price = Some 2.5, added_on = ''2024-01-01 10:00:00''\<rparr>,
     \<lparr>product_id = 2, name = ''Widget B'', category = Some ''Tools'', quantity = Some 5,
       price = Some 3, added_on = ''2024-01-01 10:00:01''\<rparr>,
     \<lparr>product_id = 3, name = ''Gadget'', category = Some ''Electronics'', quantity = Some 1,
       price = Some 100, added_on = ''2024-01-01 10:00:02''\<rparr>]"
  by (simp add: scenario_db_def run_def insert_product_def empty_file_def bindable_def
      sqlite_int_def next_rowid_def)

text \<open>
  C10. A filter text with \<^verbatim>\<open>%\<close> is a pattern, not a literal: \<^verbatim>\<open>fetch_products("%")\<close>
  returns every product of every store, as the call without a filter does, and in the
  store with the one product Widget A it returns that product, whose name and
  category hold no \<^verbatim>\<open>%\<close>.
\<close>

theorem fetch_products_percent_returns_all:
  "fetch_products d ''%'' = fetch_products d [] \<and>
   fetch_products widget_db ''%'' = Inr (products widget_db) \<and>
   (\<exists>r. products widget_db = [r] \<and> CHR ''%'' \<notin> set (name r) \<and>
        category r = Some ''Tools'' \<and> CHR ''%'' \<notin> set ''Tools'')"
proof -
  have c: "name_or_category_like ''%%%'' r = Inr (Some True)" for r
    by (simp add: name_or_category_like_def sql_like_def encode_def c_string_def
        like_match_percents sql_or_def split: option.splits)
  have "sql_where (name_or_category_like ''%%%'') rows = Inr rows" for rows
    using sql_where_total [of rows "name_or_category_like ''%%%''" "\<lambda>r. Some True"] c
    by simp
  then have all: "fetch_products e ''%'' = fetch_products e []" for e
    by (simp add: fetch_products_def)
  have "fetch_products widget_db [] = Inr (products widget_db)"
    by (simp add: fetch_products_def order_by_id_desc_def widget_db_products)
  with all show ?thesis
    by (simp add: widget_db_products)
qed

text \<open>
  C9. The ids of a table are distinct (the primary key), and for every filter, the
  empty one too, the rows that \<^verbatim>\<open>fetch_products\<close> returns are in strictly descending
  order of id.
\<close>

theorem fetch_products_descending:
  assumes "schema_ok d" and "fetch_products d search_text = Inr rows"
  shows "sorted_wrt (>) (map product_id rows)"
proof -
  have dist: "distinct (map product_id (filter P (products d)))" for P
    using assms(1) by (simp add: schema_ok_def distinct_map_filter)
  show ?thesis
  proof (cases "search_text = []")
    case True
    with assms(2) have "rows = order_by_id_desc (products d)"
      by (simp add: fetch_products_def)
    then show ?thesis
      using assms(1) by (simp add: schema_ok_def sorted_desc_order_by_id)
  next
    case False
    with assms(2) obtain out where
      out: "sql_where (name_or_category_like (''%'' @ search_text @ ''%'')) (products d) = Inr out"
      and rows: "rows = order_by_id_desc out"
      by (auto simp: fetch_products_def Let_def split: sum.splits)
    from sql_where_Inr [OF out] dist have "distinct (map product_id out)"
      by simp
    then show ?thesis
      by (simp add: rows sorted_desc_order_by_id)
  qed
qed

theorem fetch_products_descending_witness:
  "schema_ok scenario_db \<and>
   (\<exists>rows. fetch_products scenario_db ''e'' = Inr rows \<and>
      map product_id rows = [3, 2, 1] \<and>
      map name rows = [''Gadget'', ''Widget B'', ''Widget A''] \<and>
      sorted_wrt (>) (map product_id rows))"
proof -
  have s: "schema_ok scenario_db"
    by (simp add: schema_ok_def scenario_db_products sqlite_int_def)
       (simp add: scenario_db_def run_def insert_product_def empty_file_def bindable_def
          sqlite_int_def next_rowid_def)
  have m: "like_match ''%e%'' ''Widget A''" "like_match ''%e%'' ''Widget B''"
    "like_match ''%e%'' ''Gadget''"
    by code_simp+
  have f: "fetch_products scenario_db ''e'' =
     Inr (order_by_id_desc (products scenario_db))"
    using m
    by (simp add: fetch_products_def name_or_category_like_def sql_like_def encode_def
        c_string_def sql_or_def scenario_db_products)
  have ids: "map product_id (order_by_id_desc (products scenario_db)) = [3, 2, 1]"
    and names: "map name (order_by_id_desc (products scenario_db)) =
      [''Gadget'', ''Widget B'', ''Widget A'']"
    by (simp_all add: order_by_id_desc_def scenario_db_products)
  have srt: "sorted_wrt (>) (map product_id (order_by_id_desc (products scenario_db)))"
    by (rule fetch_products_descending [OF s f])
  have "fetch_products scenario_db ''e'' = Inr (order_by_id_desc (products scenario_db)) \<and>
      map product_id (order_by_id_desc (products scenario_db)) = [3, 2, 1] \<and>
      map name (order_by_id_desc (products scenario_db)) =
        [''Gadget'', ''Widget B'', ''Widget A''] \<and>
      sorted_wrt (>) (map product_id (order_by_id_desc (products scenario_db)))"
    by (intro conjI f ids names srt)
  then have "\<exists>rows. fetch_products scenario_db ''e'' = Inr rows \<and>
      map product_id rows = [3, 2, 1] \<and>
      map name rows = [''Gadget'', ''Widget B'', ''Widget A''] \<and>
      sorted_wrt (>) (map product_id rows)"
    by (rule exI)
  with s show ?thesis
    by (rule conjI)
qed

section \<open>Insertion\<close>

lemma fold_max_ge: "(a::int) \<le> fold max xs a \<and> (\<forall>x \<in> set xs. x \<le> fold max xs a)"
proof (induction xs arbitrary: a)
  case Nil
  show ?case by simp
next
  case (Cons x xs)
  have "max x a \<le> fold max xs (max x a)" using Cons.IH by blast
  moreover have "\<forall>y \<in> set xs. y \<le> fold max xs (max x a)" using Cons.IH by blast
  ultimately show ?case by auto
qed

lemma next_rowid_fresh:
  "products_seq d < next_rowid d \<and> (\<forall>r \<in> set (products d). product_id r < next_rowid d)"
  using fold_max_ge [of "products_seq d" "map product_id (products d)"]
  by (auto simp: next_rowid_def)

lemma insert_widget:
  "insert_product ''2024-01-01 10:00:00'' empty_file
     (Some ''Widget A'') (Some ''Tools'') (Some 10) (Some 2.5) = (True, widget_db)"
  by (simp add: widget_db_def insert_product_def empty_file_def bindable_def sqlite_int_def
      next_rowid_def)

text \<open>
  C5, as the code has it. \<^verbatim>\<open>insert_product\<close> returns a boolean, never the record.
  When it returns \<open>True\<close> the table has grown by exactly one row at its end, with the
  fields given, the clock reading as \<^verbatim>\<open>added_on\<close> and an id above every id of the
  table; when it returns \<open>False\<close> the store is unchanged.
\<close>

theorem insert_product_result:
  assumes "insert_product now d nm cat qty pr = (ok, d')"
  shows "if ok
         then \<exists>n i. nm = Some n \<and>
                products d' = products d @
                  [\<lparr>product_id = i, name = n, category = cat, quantity = qty,
                    price = pr, added_on = now\<rparr>] \<and>
                (\<forall>r \<in> set (products d). product_id r < i) \<and> users d' = users d
         else d' = d"
  using assms next_rowid_fresh [of d]
  by (auto simp: insert_product_def Let_def split: if_splits option.splits)

theorem insert_product_result_witness:
  "insert_product ''2024-01-01 10:00:00'' empty_file
     (Some ''Widget A'') (Some ''Tools'') (Some 10) (Some 2.5) = (True, widget_db) \<and>
   (\<exists>i. products widget_db = products empty_file @
      [\<lparr>product_id = i, name = ''Widget A'', category = Some ''Tools'', quantity = Some 10,
        price = Some 2.5, added_on = ''2024-01-01 10:00:00''\<rparr>] \<and>
      (\<forall>r \<in> set (products empty_file). product_id r < i) \<and>
      users widget_db = users empty_file)"
  using insert_widget insert_product_result [OF insert_widget] by simp

text \<open>
  The claim C5 as stated fails: the value returned is the same \<open>True\<close> for an insertion
  into the empty store and for one into the store with Widget A, while the records
  created differ (ids 1 and 2); the caller does not receive the record.
\<close>

theorem insert_product_returns_flag_counterexample:
  "fst (insert_product ''t'' empty_file (Some ''Gadget'') None (Some 1) (Some 100)) =
   fst (insert_product ''t'' widget_db (Some ''Gadget'') None (Some 1) (Some 100)) \<and>
   map product_id (products (snd
     (insert_product ''t'' empty_file (Some ''Gadget'') None (Some 1) (Some 100)))) = [1] \<and>
   map product_id (products (snd
     (insert_product ''t'' widget_db (Some ''Gadget'') None (Some 1) (Some 100)))) = [1, 2]"
  by (simp add: insert_product_def empty_file_def bindable_def sqlite_int_def
      next_rowid_def widget_db_products)
     (simp add: widget_db_def insert_product_def empty_file_def bindable_def sqlite_int_def
      next_rowid_def)

section \<open>Update and delete\<close>

text \<open>
  C2, as the code has it. For an id that no row has (the id and the quantity within
  SQLite's integers), \<^verbatim>\<open>update_product\<close> and \<^verbatim>\<open>delete_product\<close> raise nothing, change
  nothing and return \<open>True\<close>, the value they return for every id, present or not:
  the caller cannot tell the two apart.
\<close>

theorem update_delete_absent_id:
  assumes "i \<notin> set (map product_id (products d))" and "sqlite_int i" and "bindable qty"
  shows "update_product d i nm cat qty pr = (True, d) \<and>
         delete_product d i = (True, d) \<and>
         (\<forall>j n. sqlite_int j \<longrightarrow>
            fst (update_product d j (Some n) cat qty pr) = True \<and>
            fst (delete_product d j) = True)"
proof -
  have "filter (\<lambda>r. product_id r \<noteq> i) (products d) = products d"
    using assms(1) by (auto simp: filter_id_conv)
  then show ?thesis
    using assms by (simp add: update_product_def delete_product_def)
qed

theorem update_delete_absent_id_witness:
  "999 \<notin> set (map product_id (products widget_db)) \<and> sqlite_int 999 \<and> bindable (Some 3) \<and>
   update_product widget_db 999 (Some ''Bolt'') (Some ''Parts'') (Some 3) (Some 1) =
     (True, widget_db) \<and>
   delete_product widget_db 999 = (True, widget_db) \<and>
   fst (update_product widget_db 1 (Some ''Bolt'') (Some ''Parts'') (Some 3) (Some 1)) = True \<and>
   fst (delete_product widget_db 1) = True"
proof -
  have a: "999 \<notin> set (map product_id (products widget_db))"
    by (simp add: widget_db_products)
  have b: "sqlite_int 999" and c: "bindable (Some 3)" and e: "sqlite_int 1"
    by (simp_all add: sqlite_int_def bindable_def)
  show ?thesis
    using a b c e
      update_delete_absent_id [OF a b c, of "Some ''Bolt''" "Some ''Parts''" "Some 1"]
    by blast
qed

text \<open>The claim C2 as stated fails: on the absent id 999 both functions report
  \<open>True\<close>, not \<open>False\<close>.\<close>

theorem update_delete_absent_id_counterexample:
  "999 \<notin> set (map product_id (products widget_db)) \<and>
   fst (update_product widget_db 999 (Some ''Bolt'') (Some ''Parts'') (Some 3) (Some 1)) = True \<and>
   fst (delete_product widget_db 999) = True"
  by (simp add: update_product_def delete_product_def widget_db_products sqlite_int_def
      bindable_def)

text \<open>
  C6. For an id that a row has, \<^verbatim>\<open>update_product\<close> with a name returns \<open>True\<close>; the
  table keeps its rows in place with their ids and \<^verbatim>\<open>added_on\<close>; a row with this id
  takes the four fields given; every other row, the users and the id counter are
  unchanged.
\<close>

theorem update_product_frame:
  assumes "i \<in> set (map product_id (products d))" and "sqlite_int i" and "bindable qty"
  shows "\<exists>d'. update_product d i (Some n) cat qty pr = (True, d') \<and>
           users d' = users d \<and> products_seq d' = products_seq d \<and>
           length (products d') = length (products d) \<and>
           (\<forall>k < length (products d).
              product_id (products d' ! k) = product_id (products d ! k) \<and>
              added_on (products d' ! k) = added_on (products d ! k) \<and>
              (if product_id (products d ! k) = i
               then name (products d' ! k) = n \<and> category (products d' ! k) = cat \<and>
                    quantity (products d' ! k) = qty \<and> price (products d' ! k) = pr
               else products d' ! k = products d ! k))"
  using assms by (simp add: update_product_def)

theorem update_product_frame_witness:
  "1 \<in> set (map product_id (products widget_db)) \<and> sqlite_int 1 \<and> bindable (Some 3) \<and>
   (\<exists>d'. update_product widget_db 1 (Some ''Bolt'') (Some ''Parts'') (Some 3) (Some 1) =
            (True, d') \<and>
      length (products d') = 1 \<and> product_id (products d' ! 0) = 1 \<and>
      added_on (products d' ! 0) = ''2024-01-01 10:00:00'' \<and>
      name (products d' ! 0) = ''Bolt'' \<and> quantity (products d' ! 0) = Some 3)"
proof -
  have a: "1 \<in> set (map product_id (products widget_db))"
    by (simp add: widget_db_products)
  have b: "sqlite_int 1" and c: "bindable (Some 3)"
    by (simp_all add: sqlite_int_def bindable_def)
  show ?thesis
    using a b c
      update_product_frame [OF a b c, of "''Bolt''" "Some ''Parts''" "Some 1"]
    by (auto simp: widget_db_products)
qed

section \<open>Invariants of the store\<close>















section \<open>The totals of the dashboard\<close>

lemma foldl_add_sum_list: "foldl (+) a xs = (a::int) + sum_list xs"
  by (induction xs arbitrary: a) simp_all

lemma py_sum_sum_list: "py_sum xs = sum_list xs"
  by (simp add: py_sum_def foldl_add_sum_list)

lemma sum_list_order_by_id_desc:
  "sum_list (map f (order_by_id_desc rows)) = sum_list (map (f::product \<Rightarrow> int) rows)"
proof -
  have "mset (map f (order_by_id_desc rows)) = mset (map f rows)"
    by (simp add: order_by_id_desc_def)
  then show ?thesis
    by (metis sum_mset_sum_list)
qed

lemma int_or_0: "int_or v 0 = (case v of None \<Rightarrow> 0 | Some n \<Rightarrow> n)"
  by (simp add: int_or_def split: option.splits)

lemma float_or_0: "float_or v 0 = (case v of None \<Rightarrow> 0 | Some x \<Rightarrow> x)"
  by (simp add: float_or_def split: option.splits)

text \<open>
  The integer totals. \<^verbatim>\<open>update_dashboard\<close> reads the table without a filter and
  raises nothing: \<open>total_products\<close> is the number of rows and \<open>total_quantity\<close> the sum
  of the quantities with NULL as 0. \<open>total_value\<close> is what the interpreter's float
  arithmetic makes of the products quantity times price, newest row first.
\<close>

lemma update_dashboard_integer_totals:
  "\<exists>dash. update_dashboard fl d = Inr dash \<and>
     total_products dash = length (products d) \<and>
     total_quantity dash =
       (\<Sum>r \<leftarrow> products d. case quantity r of None \<Rightarrow> 0 | Some q \<Rightarrow> q) \<and>
     total_value dash =
       float_sum fl
         (map (\<lambda>r. int_times fl (case quantity r of None \<Rightarrow> 0 | Some q \<Rightarrow> q)
                      (case price r of None \<Rightarrow> 0 | Some p \<Rightarrow> p))
            (order_by_id_desc (products d)))"
  by (simp add: update_dashboard_def fetch_products_all py_sum_sum_list
      sum_list_order_by_id_desc int_or_0 float_or_0)
     (simp add: order_by_id_desc_def)

lemma update_dashboard_scenario:
  "\<exists>dash. update_dashboard fl scenario_db = Inr dash \<and>
     total_products dash = 3 \<and> total_quantity dash = 16 \<and>
     total_value dash =
       float_sum fl [int_times fl 1 100, int_times fl 5 3, int_times fl 10 2.5]"
  by (simp add: update_dashboard_def fetch_products_all py_sum_def int_or_def float_or_def
      order_by_id_desc_def scenario_db_products)

section \<open>The filter of the product list\<close>










section \<open>The categories of the chart\<close>

lemma first_seen_snoc:
  "first_seen (xs @ [x]) = (if x \<in> set xs then first_seen xs else first_seen xs @ [x])"
  by (simp add: first_seen_def)

lemma distinct_first_seen: "distinct (first_seen xs)"
  by (simp add: first_seen_def)

lemma set_first_seen: "set (first_seen xs) = set xs"
  by (simp add: first_seen_def)

lemma counter_add_map:
  "distinct ks \<Longrightarrow>
   counter_add (map (\<lambda>k. (k, f k)) ks) x =
     (if x \<in> set ks then map (\<lambda>k. (k, if k = x then f k + 1 else f k)) ks
      else map (\<lambda>k. (k, f k)) ks @ [(x, 1)])"
  by (induction ks) auto

lemma Counter_first_seen: "Counter xs = map (\<lambda>k. (k, count_list xs k)) (first_seen xs)"
proof (induction xs rule: rev_induct)
  case Nil
  show ?case by (simp add: Counter_def first_seen_def)
next
  case (snoc x xs)
  have "Counter (xs @ [x]) = counter_add (Counter xs) x"
    by (simp add: Counter_def)
  also have "\<dots> = counter_add (map (\<lambda>k. (k, count_list xs k)) (first_seen xs)) x"
    by (simp add: snoc.IH)
  also have "\<dots> = map (\<lambda>k. (k, count_list (xs @ [x]) k)) (first_seen (xs @ [x]))"
  proof (cases "x \<in> set xs")
    case True
    then show ?thesis
      by (simp add: counter_add_map distinct_first_seen set_first_seen first_seen_snoc)
  next
    case False
    then have "map (\<lambda>k. (k, count_list xs k)) (first_seen xs) =
               map (\<lambda>k. (k, count_list (xs @ [x]) k)) (first_seen xs)"
      by (auto simp: set_first_seen)
    with False show ?thesis
      by (simp add: counter_add_map distinct_first_seen set_first_seen first_seen_snoc)
  qed
  finally show ?case .
qed

lemma count_list_labels:
  "count_list (map category_label (order_by_id_desc rows)) k =
   length (filter (\<lambda>r. category_label r = k) rows)"
proof -
  have "count_list (map category_label (order_by_id_desc rows)) k =
        count (mset (map category_label (order_by_id_desc rows))) k"
    by (simp only: count_mset)
  also have "\<dots> = count (mset (map category_label rows)) k"
    by (simp add: order_by_id_desc_def)
  also have "\<dots> = length (filter (\<lambda>r. category_label r = k) rows)"
    by (induction rows) auto
  finally show ?thesis .
qed

lemma text_or_label: "text_or (category r) ''Uncategorized'' = category_label r"
  by (simp add: text_or_def category_label_def)

lemma top_counts_eq:
  "\<exists>dash. update_dashboard fl d = Inr dash \<and>
     top_counts dash =
       take 8 (sort_key (\<lambda>kv. - int (snd kv))
         (map (\<lambda>k. (k, label_count d k))
            (first_seen (map category_label (order_by_id_desc (products d))))))"
  by (simp add: update_dashboard_def fetch_products_all most_common_def Counter_first_seen
      text_or_label count_list_labels label_count_def)

text \<open>
  C4. The chart data of \<^verbatim>\<open>update_dashboard\<close> has at most 8 entries with distinct
  keys; each entry pairs a label with the number of products of that label, which is
  positive, and no key is the empty text, an empty or missing category being counted
  under \<^verbatim>\<open>Uncategorized\<close>; the counts descend; the entries of one count are in the
  order in which their labels are first met in the list of products, newest first, and
  are the first of that order; a label that is left out has a count no larger than
  any count shown, and then 8 entries are shown.
\<close>

theorem top_counts_properties:
  "\<exists>rows dash. fetch_products d [] = Inr rows \<and> update_dashboard fl d = Inr dash \<and>
   length (top_counts dash) \<le> 8 \<and>
   distinct (map fst (top_counts dash)) \<and>
   (\<forall>kv \<in> set (top_counts dash).
      snd kv = label_count d (fst kv) \<and> 0 < snd kv \<and> fst kv \<noteq> []) \<and>
   sorted_wrt (\<lambda>a b. snd b \<le> snd a) (top_counts dash) \<and>
   (\<forall>n. prefix (filter (\<lambda>kv. snd kv = n) (top_counts dash))
          (filter (\<lambda>kv. snd kv = n)
             (map (\<lambda>k. (k, label_count d k)) (first_seen (map category_label rows))))) \<and>
   (\<forall>r \<in> set (products d).
      category_label r \<notin> fst ` set (top_counts dash) \<longrightarrow>
      length (top_counts dash) = 8 \<and>
      (\<forall>kv \<in> set (top_counts dash). label_count d (category_label r) \<le> snd kv))"
proof -
  define g :: "string \<times> nat \<Rightarrow> int" where "g = (\<lambda>kv. - int (snd kv))"
  define rows where "rows = order_by_id_desc (products d)"
  have fr: "fetch_products d [] = Inr rows"
    by (simp add: rows_def fetch_products_all)
  define L where "L = map category_label rows"
  define C where "C = map (\<lambda>k. (k, label_count d k)) (first_seen L)"
  define S where "S = sort_key g C"
  obtain dash where ud: "update_dashboard fl d = Inr dash" and
    tcd: "top_counts dash =
       take 8 (sort_key (\<lambda>kv. - int (snd kv))
         (map (\<lambda>k. (k, label_count d k))
            (first_seen (map category_label (order_by_id_desc (products d))))))"
    using top_counts_eq [of fl d] by blast
  define tc where "tc = top_counts dash"
  have tc: "tc = take 8 S"
    by (simp add: tc_def S_def C_def L_def g_def rows_def tcd)
  have setL: "set L = category_label ` set (products d)"
    by (simp add: L_def rows_def order_by_id_desc_def)
  have dC: "distinct (map fst C)"
    by (simp add: C_def comp_def distinct_first_seen)
  have setS: "set S = set C"
    by (simp add: S_def)
  have sub: "set tc \<subseteq> set C"
    using set_take_subset [of 8 S] by (simp add: tc setS)
  have 1: "length tc \<le> 8"
    by (simp add: tc)
  have "distinct (map fst S)"
    using dC by (simp add: S_def distinct_map)
  then have 2: "distinct (map fst tc)"
    by (simp add: tc take_map [symmetric])
  have inC: "snd kv = label_count d (fst kv) \<and> 0 < snd kv \<and> fst kv \<noteq> []" if "kv \<in> set C" for kv
  proof -
    from that obtain k where k: "k \<in> set L" "kv = (k, label_count d k)"
      by (auto simp: C_def set_first_seen)
    from k(1) obtain r where r: "r \<in> set (products d)" "k = category_label r"
      by (auto simp: setL)
    then have "filter (\<lambda>r. category_label r = k) (products d) \<noteq> []"
      by (auto simp: filter_empty_conv)
    then have "0 < label_count d k"
      by (simp add: label_count_def)
    moreover have "k \<noteq> []"
      using r(2) by (simp add: category_label_def split: option.splits)
    ultimately show ?thesis using k(2) by simp
  qed
  have 3: "\<forall>kv \<in> set tc. snd kv = label_count d (fst kv) \<and> 0 < snd kv \<and> fst kv \<noteq> []"
    using sub inC by blast
  have sS: "sorted (map g S)"
    by (simp add: S_def)
  have app: "S = tc @ drop 8 S"
    by (simp add: tc)
  have "sorted (map g tc @ map g (drop 8 S))"
    using sS app by (metis map_append)
  then have ord: "sorted (map g tc)" and
    cross: "\<forall>a \<in> set tc. \<forall>b \<in> set (drop 8 S). g a \<le> g b"
    by (auto simp: sorted_append)
  have 4: "sorted_wrt (\<lambda>a b. snd b \<le> snd a) tc"
    using ord by (simp add: sorted_wrt_map g_def)
  have 5: "prefix (filter (\<lambda>kv. snd kv = n) tc) (filter (\<lambda>kv. snd kv = n) C)" for n
  proof -
    have "(\<lambda>kv. snd kv = n) = (\<lambda>kv. g kv = - int n)"
      by (auto simp: g_def fun_eq_iff)
    then have "filter (\<lambda>kv. snd kv = n) S = filter (\<lambda>kv. snd kv = n) C"
      by (simp add: S_def sort_key_stable)
    moreover have "prefix (filter (\<lambda>kv. snd kv = n) tc) (filter (\<lambda>kv. snd kv = n) S)"
      by (simp add: tc filter_mono_prefix take_is_prefix)
    ultimately show ?thesis by simp
  qed
  have 6: "length tc = 8 \<and> (\<forall>kv \<in> set tc. label_count d (category_label r) \<le> snd kv)"
    if r: "r \<in> set (products d)" and out: "category_label r \<notin> fst ` set tc" for r
  proof -
    let ?kv = "(category_label r, label_count d (category_label r))"
    have "?kv \<in> set C"
      using r by (auto simp: C_def set_first_seen setL)
    then have "?kv \<in> set tc \<union> set (drop 8 S)"
      using setS app by (metis set_append)
    moreover have "?kv \<notin> set tc"
      using out by force
    ultimately have d: "?kv \<in> set (drop 8 S)" by blast
    then have "drop 8 S \<noteq> []" by auto
    then have "length tc = 8"
      by (simp add: tc)
    moreover have "\<forall>kv \<in> set tc. label_count d (category_label r) \<le> snd kv"
      using cross d by (force simp: g_def)
    ultimately show ?thesis by blast
  qed
  show ?thesis
    using fr ud 1 2 3 4 5 6 unfolding tc_def C_def L_def by blast
qed


lemma crowded_db_products:
  "products crowded_db =
    [\<lparr>product_id = 1, name = ''P1'', category = Some ''A'', quantity = Some 1,
       price = Some 1, added_on = ''t1''\<rparr>,
     \<lparr>product_id = 2, name = ''P2'', category = Some ''B'', quantity = Some 2,
       price = Some 1, added_on = ''t2''\<rparr>,
     \<lparr>product_id = 3, name = ''P3'', category = Some ''B'', quantity = Some 3,
       price = Some 1, added_on = ''t3''\<rparr>,
     \<lparr>product_id = 4, name = ''P4'', category = Some ''C'', quantity = Some 4,
       price = Some 1, added_on = ''t4''\<rparr>,
     \<lparr>product_id = 5, name = ''P5'', category = Some ''D'', quantity = Some 5,
       price = Some 1, added_on = ''t5''\<rparr>,
     \<lparr>product_id = 6, name = ''P6'', category = Some ''E'', quantity = Some 6,
       price = Some 1, added_on = ''t6''\<rparr>,
     \<lparr>product_id = 7, name = ''P7'', category = Some ''F'', quantity = Some 7,
       price = Some 1, added_on = ''t7''\<rparr>,
     \<lparr>product_id = 8, name = ''P8'', category = Some ''G'', quantity = Some 8,
       price = Some 1, added_on = ''t8''\<rparr>,
     \<lparr>product_id = 9, name = ''P9'', category = Some ''H'', quantity = Some 9,
       price = Some 1, added_on = ''t9''\<rparr>,
     \<lparr>product_id = 10, name = ''P10'', category = Some [], quantity = Some 10,
       price = Some 1, added_on = ''t10''\<rparr>,
     \<lparr>product_id = 11, name = ''P11'', category = None, quantity = Some 11,
       price = Some 1, added_on = ''t11''\<rparr>]"
  by (simp add: crowded_db_def run_def insert_product_def empty_file_def bindable_def
      sqlite_int_def next_rowid_def)

lemma crowded_top_counts:
  "\<exists>dash. update_dashboard fl crowded_db = Inr dash \<and>
     top_counts dash =
       [(''Uncategorized'', 2), (''B'', 2), (''H'', 1), (''G'', 1), (''F'', 1), (''E'', 1),
        (''D'', 1), (''C'', 1)]"
  by (simp add: update_dashboard_def fetch_products_all order_by_id_desc_def most_common_def
      Counter_def text_or_def crowded_db_products)

theorem top_counts_properties_witness:
  "\<forall>fl :: (real, real) py_float.
     \<exists>dash. update_dashboard fl crowded_db = Inr dash \<and>
       top_counts dash =
         [(''Uncategorized'', 2), (''B'', 2), (''H'', 1), (''G'', 1), (''F'', 1), (''E'', 1),
          (''D'', 1), (''C'', 1)] \<and>
       (\<exists>r \<in> set (products crowded_db).
          category_label r = ''A'' \<and>
          category_label r \<notin> fst ` set (top_counts dash) \<and>
          length (top_counts dash) = 8 \<and>
          (\<forall>kv \<in> set (top_counts dash).
             label_count crowded_db (category_label r) \<le> snd kv)) \<and>
       distinct (map fst (top_counts dash)) \<and>
       sorted_wrt (\<lambda>a b. snd b \<le> snd a) (top_counts dash)"
proof
  fix fl :: "(real, real) py_float"
  obtain rows dash where ud: "update_dashboard fl crowded_db = Inr dash"
    and d: "distinct (map fst (top_counts dash))"
    and s: "sorted_wrt (\<lambda>a b. snd b \<le> snd a) (top_counts dash)"
    and top: "\<forall>r \<in> set (products crowded_db).
      category_label r \<notin> fst ` set (top_counts dash) \<longrightarrow>
      length (top_counts dash) = 8 \<and>
      (\<forall>kv \<in> set (top_counts dash). label_count crowded_db (category_label r) \<le> snd kv)"
    using top_counts_properties [of crowded_db fl] by blast
  have tc: "top_counts dash =
      [(''Uncategorized'', 2), (''B'', 2), (''H'', 1), (''G'', 1), (''F'', 1), (''E'', 1),
       (''D'', 1), (''C'', 1)]"
    using crowded_top_counts [of fl] ud by auto
  have r: "products crowded_db ! 0 \<in> set (products crowded_db)"
    by (simp add: crowded_db_products)
  have a: "category_label (products crowded_db ! 0) = ''A''"
    by (simp add: crowded_db_products category_label_def)
  have out: "category_label (products crowded_db ! 0) \<notin> fst ` set (top_counts dash)"
    by (simp add: tc a)
  from top r out have
    "length (top_counts dash) = 8 \<and>
     (\<forall>kv \<in> set (top_counts dash).
        label_count crowded_db (category_label (products crowded_db ! 0)) \<le> snd kv)"
    by blast
  with r a out have
    "\<exists>r \<in> set (products crowded_db).
          category_label r = ''A'' \<and>
          category_label r \<notin> fst ` set (top_counts dash) \<and>
          length (top_counts dash) = 8 \<and>
          (\<forall>kv \<in> set (top_counts dash).
             label_count crowded_db (category_label r) \<le> snd kv)"
    by blast
  with ud tc d s show "\<exists>dash. update_dashboard fl crowded_db = Inr dash \<and>
       top_counts dash =
         [(''Uncategorized'', 2), (''B'', 2), (''H'', 1), (''G'', 1), (''F'', 1), (''E'', 1),
          (''D'', 1), (''C'', 1)] \<and>
       (\<exists>r \<in> set (products crowded_db).
          category_label r = ''A'' \<and>
          category_label r \<notin> fst ` set (top_counts dash) \<and>
          length (top_counts dash) = 8 \<and>
          (\<forall>kv \<in> set (top_counts dash).
             label_count crowded_db (category_label r) \<le> snd kv)) \<and>
       distinct (map fst (top_counts dash)) \<and>
       sorted_wrt (\<lambda>a b. snd b \<le> snd a) (top_counts dash)"
    by (intro exI [of _ dash] conjI)
qed

section \<open>The default credential\<close>

text \<open>The two digests of the scenario, computed in stages: the block, its message
  schedule, the 64 rounds eight at a time.\<close>

lemma replicate_numeral: "replicate (numeral n) x = x # replicate (pred_numeral n) x"
  by (simp add: numeral_eq_Suc)

lemma schedule_numeral:
  "schedule (numeral n) w =
     schedule (pred_numeral n) ((sigma1 (w ! 1) + w ! 6 + sigma0 (w ! 14) + w ! 15) # w)"
  by (simp add: numeral_eq_Suc)

lemma blocks_of_one: "blocks_of 1 ws = [take 16 ws]"
  by (simp add: numeral_eq_Suc)

lemmas sha_eval = replicate_numeral schedule_numeral
  pad_def be_bytes8_def encode_def
  Sigma0_def Sigma1_def sigma0_def sigma1_def Ch_def Maj_def rotr_def

lemma block_admin123:
  "words_of (pad (encode ''admin123'')) =
     [1633971561, 1848717875, 2147483648, 0, 0, 0, 0,
     0, 0, 0, 0, 0, 0, 0,
     0, 64]"
  by (simp add: sha_eval)

lemma schedule_admin123:
  "rev (schedule 48 (rev
     [1633971561, 1848717875, 2147483648, 0, 0, 0, 0,
     0, 0, 0, 0, 0, 0, 0,
     0, 64])) =
   [1633971561, 1848717875, 2147483648, 0, 0, 0, 0,
   0, 0, 0, 0, 0, 0, 0,
   0, 64, 2298154263, 2136560179, 1728777121, 2202011155, 3837615526,
   65757641, 90079710, 1708681319, 271509463, 2687579118, 844457918, 2757748216,
   588229634, 331928379, 158465660, 2172155718, 666460706, 1944172320, 3752987434,
   2582637078, 2270626702, 849621220, 3235357775, 1103381969, 812431525, 1307034512,
   3024937292, 814195296, 2196179888, 2159318452, 817990546, 2724398274, 2376891710,
   3615738055, 2246127347, 2267928364, 2090542621, 591429744, 383529064, 2180221813,
   2146460849, 1081026464, 2838895552, 3624668232, 3511972875, 1607039093, 3080580269,
   693687276]"
  by (simp add: sha_eval)

lemma rounds_admin123_1:
  "foldl round256
     [1779033703, 3144134277, 1013904242, 2773480762, 1359893119, 2600822924, 528734635,
     1541459225]
     [(1116352408, 1633971561), (1899447441, 1848717875), (3049323471, 2147483648),
     (3921009573, 0), (961987163, 0), (1508970993, 0),
     (2453635748, 0), (2870763221, 0)] =
   [296632960, 3705272914, 2438930637, 3081376884, 3878222462, 2984476107, 1258008097,
   693495355]"
  by (simp add: sha_eval)

lemma rounds_admin123_2:
  "foldl round256
     [296632960, 3705272914, 2438930637, 3081376884, 3878222462, 2984476107, 1258008097,
     693495355]
     [(3624381080, 0), (310598401, 0), (607225278, 0),
     (1426881987, 0), (1925078388, 0), (2162078206, 0),
     (2614888103, 0), (3248222580, 64)] =
   [2734558277, 2916801703, 320428195, 3313866928, 1465773487, 61377035, 3959180330,
   2570333871]"
  by (simp add: sha_eval)

lemma rounds_admin123_3:
  "foldl round256
     [2734558277, 2916801703, 320428195, 3313866928, 1465773487, 61377035, 3959180330,
     2570333871]
     [(3835390401, 2298154263), (4022224774, 2136560179), (264347078, 1728777121),
     (604807628, 2202011155), (770255983, 3837615526), (1249150122, 65757641),
     (1555081692, 90079710), (1996064986, 1708681319)] =
   [554961273, 3630518327, 2841193069, 3129913170, 735536268, 711689448, 3176984943,
   1391713376]"
  by (simp add: sha_eval)

lemma rounds_admin123_4:
  "foldl round256
     [554961273, 3630518327, 2841193069, 3129913170, 735536268, 711689448, 3176984943,
     1391713376]
     [(2554220882, 271509463), (2821834349, 2687579118), (2952996808, 844457918),
     (3210313671, 2757748216), (3336571891, 588229634), (3584528711, 331928379),
     (113926993, 158465660), (338241895, 2172155718)] =
   [91015957, 3558980972, 2151348060, 1857580747, 2522069978, 1088357085, 1865496047,
   1473554792]"
  by (simp add: sha_eval)

lemma rounds_admin123_5:
  "foldl round256
     [91015957, 3558980972, 2151348060, 1857580747, 2522069978, 1088357085, 1865496047,
     1473554792]
     [(666307205, 666460706), (773529912, 1944172320), (1294757372, 3752987434),
     (1396182291, 2582637078), (1695183700, 2270626702), (1986661051, 849621220),
     (2177026350, 3235357775), (2456956037, 1103381969)] =
   [2282527078, 529909964, 345215166, 3305922033, 2741937607, 1123518838, 2870453722,
   3968831636]"
  by (simp add: sha_eval)

lemma rounds_admin123_6:
  "foldl round256
     [2282527078, 529909964, 345215166, 3305922033, 2741937607, 1123518838, 2870453722,
     3968831636]
     [(2730485921, 812431525), (2820302411, 1307034512), (3259730800, 3024937292),
     (3345764771, 814195296), (3516065817, 2196179888), (3600352804, 2159318452),
     (4094571909, 817990546), (275423344, 2724398274)] =
   [2203212568, 3145245830, 1514792384, 3046771473, 2947310295, 1467598607, 2791845398,
   3800510039]"
  by (simp add: sha_eval)

lemma rounds_admin123_7:
  "foldl round256
     [2203212568, 3145245830, 1514792384, 3046771473, 2947310295, 1467598607, 2791845398,
     3800510039]
     [(430227734, 2376891710), (506948616, 3615738055), (659060556, 2246127347),
     (883997877, 2267928364), (958139571, 2090542621), (1322822218, 591429744),
     (1537002063, 383529064), (1747873779, 2180221813)] =
   [15307078, 706039354, 2604095722, 3470804198, 507875338, 1965119681, 213667999,
   1661010078]"
  by (simp add: sha_eval)

lemma rounds_admin123_8:
  "foldl round256
     [15307078, 706039354, 2604095722, 3470804198, 507875338, 1965119681, 213667999,
     1661010078]
     [(1955562222, 2146460849), (2024104815, 1081026464), (2227730452, 2838895552),
     (2361852424, 3624668232), (2428436474, 3511972875), (2756734187, 1607039093),
     (3204031479, 3080580269), (3329325298, 693687276)] =
   [3120692913, 1062566047, 2705849564, 1171107932, 591037801, 2528846851, 2292098804,
   417747856]"
  by (simp add: sha_eval)

lemma digest_admin123:
  "hexdigest (sha256 (encode ''admin123'')) =
     ''240be518fabd2724ddb6f04eeb1da5967448d7e831c08c8fa822809f74c720a9''"
proof -
  have len: "length (pad (encode ''admin123'')) div 64 = 1"
    by (simp add: sha_eval)
  have pairs: "zip K256
   ([1633971561, 1848717875, 2147483648, 0, 0, 0, 0,
   0, 0, 0, 0, 0, 0, 0,
   0, 64, 2298154263, 2136560179, 1728777121, 2202011155, 3837615526,
   65757641, 90079710, 1708681319, 271509463, 2687579118, 844457918, 2757748216,
   588229634, 331928379, 158465660, 2172155718, 666460706, 1944172320, 3752987434,
   2582637078, 2270626702, 849621220, 3235357775, 1103381969, 812431525, 1307034512,
   3024937292, 814195296, 2196179888, 2159318452, 817990546, 2724398274, 2376891710,
   3615738055, 2246127347, 2267928364, 2090542621, 591429744, 383529064, 2180221813,
   2146460849, 1081026464, 2838895552, 3624668232, 3511972875, 1607039093, 3080580269,
   693687276] :: word32 list) =
     [(1116352408, 1633971561), (1899447441, 1848717875), (3049323471, 2147483648),
     (3921009573, 0), (961987163, 0), (1508970993, 0),
     (2453635748, 0), (2870763221, 0)] @
     [(3624381080, 0), (310598401, 0), (607225278, 0),
     (1426881987, 0), (1925078388, 0), (2162078206, 0),
     (2614888103, 0), (3248222580, 64)] @
     [(3835390401, 2298154263), (4022224774, 2136560179), (264347078, 1728777121),
     (604807628, 2202011155), (770255983, 3837615526), (1249150122, 65757641),
     (1555081692, 90079710), (1996064986, 1708681319)] @
     [(2554220882, 271509463), (2821834349, 2687579118), (2952996808, 844457918),
     (3210313671, 2757748216), (3336571891, 588229634), (3584528711, 331928379),
     (113926993, 158465660), (338241895, 2172155718)] @
     [(666307205, 666460706), (773529912, 1944172320), (1294757372, 3752987434),
     (1396182291, 2582637078), (1695183700, 2270626702), (1986661051, 849621220),
     (2177026350, 3235357775), (2456956037, 1103381969)] @
     [(2730485921, 812431525), (2820302411, 1307034512), (3259730800, 3024937292),
     (3345764771, 814195296), (3516065817, 2196179888), (3600352804, 2159318452),
     (4094571909, 817990546), (275423344, 2724398274)] @
     [(430227734, 2376891710), (506948616, 3615738055), (659060556, 2246127347),
     (883997877, 2267928364), (958139571, 2090542621), (1322822218, 591429744),
     (1537002063, 383529064), (1747873779, 2180221813)] @
     [(1955562222, 2146460849), (2024104815, 1081026464), (2227730452, 2838895552),
     (2361852424, 3624668232), (2428436474, 3511972875), (2756734187, 1607039093),
     (3204031479, 3080580269), (3329325298, 693687276)]"
    by (simp add: K256_def)
  have "compress H256 (words_of (pad (encode ''admin123''))) =
   [604759320, 4206700324, 3719753806, 3944588694, 1950930920, 834702479, 2820833439,
   1959207081]"
    unfolding compress_def block_admin123 schedule_admin123 pairs foldl_append H256_def
      rounds_admin123_1 rounds_admin123_2 rounds_admin123_3 rounds_admin123_4 rounds_admin123_5 rounds_admin123_6 rounds_admin123_7 rounds_admin123_8
    by simp
  then show ?thesis
    by (simp add: sha256_def Let_def len blocks_of_one block_admin123 hexdigest_def hex_word_def hex_digit_def)
qed

lemma block_wrong:
  "words_of (pad (encode ''wrong'')) =
     [2003988334, 1736441856, 0, 0, 0, 0, 0,
     0, 0, 0, 0, 0, 0, 0,
     0, 40]"
  by (simp add: sha_eval)

lemma schedule_wrong:
  "rev (schedule 48 (rev
     [2003988334, 1736441856, 0, 0, 0, 0, 0,
     0, 0, 0, 0, 0, 0, 0,
     0, 40])) =
   [2003988334, 1736441856, 0, 0, 0, 0, 0,
   0, 0, 0, 0, 0, 0, 0,
   0, 40, 2209450318, 1737555968, 4121853388, 2686049146, 4049768445,
   3606708857, 373104230, 3304585328, 2492155550, 4172661991, 1809028479, 1278459450,
   2399448815, 3204874710, 3616272318, 346850144, 1388428776, 3177932683, 3269292092,
   1416390370, 813638193, 4155558488, 2806474113, 2452888304, 1378750963, 1619532526,
   497273070, 1881882111, 1057919446, 4233896960, 3875730097, 3005328501, 3015065111,
   4235787368, 3817615719, 2716126817, 1762818591, 2890819248, 3265134353, 2922181588,
   1701648391, 1501843496, 775785082, 2335129566, 2001328672, 4206011585, 26798046,
   3588848245]"
  by (simp add: sha_eval)

lemma rounds_wrong_1:
  "foldl round256
     [1779033703, 3144134277, 1013904242, 2773480762, 1359893119, 2600822924, 528734635,
     1541459225]
     [(1116352408, 2003988334), (1899447441, 1736441856), (3049323471, 0),
     (3921009573, 0), (961987163, 0), (1508970993, 0),
     (2453635748, 0), (2870763221, 0)] =
   [1244354866, 3990839913, 3551412904, 3048819703, 842711103, 3851693657, 2138342990,
   1549617523]"
  by (simp add: sha_eval)

lemma rounds_wrong_2:
  "foldl round256
     [1244354866, 3990839913, 3551412904, 3048819703, 842711103, 3851693657, 2138342990,
     1549617523]
     [(3624381080, 0), (310598401, 0), (607225278, 0),
     (1426881987, 0), (1925078388, 0), (2162078206, 0),
     (2614888103, 0), (3248222580, 40)] =
   [3614798515, 3420384475, 1464485150, 4272831270, 3167969169, 3588268594, 1305837761,
   560125704]"
  by (simp add: sha_eval)

lemma rounds_wrong_3:
  "foldl round256
     [3614798515, 3420384475, 1464485150, 4272831270, 3167969169, 3588268594, 1305837761,
     560125704]
     [(3835390401, 2209450318), (4022224774, 1737555968), (264347078, 4121853388),
     (604807628, 2686049146), (770255983, 4049768445), (1249150122, 3606708857),
     (1555081692, 373104230), (1996064986, 3304585328)] =
   [3685228524, 2723498690, 3216253261, 3783871701, 3384366803, 2725390339, 3991368270,
   1442248269]"
  by (simp add: sha_eval)

lemma rounds_wrong_4:
  "foldl round256
     [3685228524, 2723498690, 3216253261, 3783871701, 3384366803, 2725390339, 3991368270,
     1442248269]
     [(2554220882, 2492155550), (2821834349, 4172661991), (2952996808, 1809028479),
     (3210313671, 1278459450), (3336571891, 2399448815), (3584528711, 3204874710),
     (113926993, 3616272318), (338241895, 346850144)] =
   [3176101494, 3436310783, 2977736456, 2792388493, 1841794291, 253057022, 2183527691,
   1130998295]"
  by (simp add: sha_eval)

lemma rounds_wrong_5:
  "foldl round256
     [3176101494, 3436310783, 2977736456, 2792388493, 1841794291, 253057022, 2183527691,
     1130998295]
     [(666307205, 1388428776), (773529912, 3177932683), (1294757372, 3269292092),
     (1396182291, 1416390370), (1695183700, 813638193), (1986661051, 4155558488),
     (2177026350, 2806474113), (2456956037, 2452888304)] =
   [1953684587, 2943054860, 2509182326, 1379614990, 3367704051, 577872567, 92214372,
   631004468]"
  by (simp add: sha_eval)

lemma rounds_wrong_6:
  "foldl round256
     [1953684587, 2943054860, 2509182326, 1379614990, 3367704051, 577872567, 92214372,
     631004468]
     [(2730485921, 1378750963), (2820302411, 1619532526), (3259730800, 497273070),
     (3345764771, 1881882111), (3516065817, 1057919446), (3600352804, 4233896960),
     (4094571909, 3875730097), (275423344, 3005328501)] =
   [1165649870, 2829291416, 2453731294, 314412989, 12517097, 863046166, 723959014,
   3701146988]"
  by (simp add: sha_eval)

lemma rounds_wrong_7:
  "foldl round256
     [1165649870, 2829291416, 2453731294, 314412989, 12517097, 863046166, 723959014,
     3701146988]
     [(430227734, 3015065111), (506948616, 4235787368), (659060556, 3817615719),
     (883997877, 2716126817), (958139571, 1762818591), (1322822218, 2890819248),
     (1537002063, 3265134353), (1747873779, 2922181588)] =
   [211313533, 2032523361, 990716599, 2289983965, 922023737, 2175417011, 2127141655,
   362595681]"
  by (simp add: sha_eval)

lemma rounds_wrong_8:
  "foldl round256
     [211313533, 2032523361, 990716599, 2289983965, 922023737, 2175417011, 2127141655,
     362595681]
     [(1955562222, 1701648391), (2024104815, 1501843496), (2227730452, 775785082),
     (2361852424, 2335129566), (2428436474, 2001328672), (2756734187, 4206011585),
     (3204031479, 26798046), (3329325298, 3588848245)] =
   [503760625, 1660044343, 4240031471, 3408559094, 1047511327, 356693930, 1312881686,
   834090252]"
  by (simp add: sha_eval)

lemma digest_wrong:
  "hexdigest (sha256 (encode ''wrong'')) =
     ''8810ad581e59f2bc3928b261707a71308f7e139eb04820366dc4d5c18d980225''"
proof -
  have len: "length (pad (encode ''wrong'')) div 64 = 1"
    by (simp add: sha_eval)
  have pairs: "zip K256
   ([2003988334, 1736441856, 0, 0, 0, 0, 0,
   0, 0, 0, 0, 0, 0, 0,
   0, 40, 2209450318, 1737555968, 4121853388, 2686049146, 4049768445,
   3606708857, 373104230, 3304585328, 2492155550, 4172661991, 1809028479, 1278459450,
   2399448815, 3204874710, 3616272318, 346850144, 1388428776, 3177932683, 3269292092,
   1416390370, 813638193, 4155558488, 2806474113, 2452888304, 1378750963, 1619532526,
   497273070, 1881882111, 1057919446, 4233896960, 3875730097, 3005328501, 3015065111,
   4235787368, 3817615719, 2716126817, 1762818591, 2890819248, 3265134353, 2922181588,
   1701648391, 1501843496, 775785082, 2335129566, 2001328672, 4206011585, 26798046,
   3588848245] :: word32 list) =
     [(1116352408, 2003988334), (1899447441, 1736441856), (3049323471, 0),
     (3921009573, 0), (961987163, 0), (1508970993, 0),
     (2453635748, 0), (2870763221, 0)] @
     [(3624381080, 0), (310598401, 0), (607225278, 0),
     (1426881987, 0), (1925078388, 0), (2162078206, 0),
     (2614888103, 0), (3248222580, 40)] @
     [(3835390401, 2209450318), (4022224774, 1737555968), (264347078, 4121853388),
     (604807628, 2686049146), (770255983, 4049768445), (1249150122, 3606708857),
     (1555081692, 373104230), (1996064986, 3304585328)] @
     [(2554220882, 2492155550), (2821834349, 4172661991), (2952996808, 1809028479),
     (3210313671, 1278459450), (3336571891, 2399448815), (3584528711, 3204874710),
     (113926993, 3616272318), (338241895, 346850144)] @
     [(666307205, 1388428776), (773529912, 3177932683), (1294757372, 3269292092),
     (1396182291, 1416390370), (1695183700, 813638193), (1986661051, 4155558488),
     (2177026350, 2806474113), (2456956037, 2452888304)] @
     [(2730485921, 1378750963), (2820302411, 1619532526), (3259730800, 497273070),
     (3345764771, 1881882111), (3516065817, 1057919446), (3600352804, 4233896960),
     (4094571909, 3875730097), (275423344, 3005328501)] @
     [(430227734, 3015065111), (506948616, 4235787368), (659060556, 3817615719),
     (883997877, 2716126817), (958139571, 1762818591), (1322822218, 2890819248),
     (1537002063, 3265134353), (1747873779, 2922181588)] @
     [(1955562222, 1701648391), (2024104815, 1501843496), (2227730452, 775785082),
     (2361852424, 2335129566), (2428436474, 2001328672), (2756734187, 4206011585),
     (3204031479, 26798046), (3329325298, 3588848245)]"
    by (simp add: K256_def)
  have "compress H256 (words_of (pad (encode ''wrong''))) =
   [2282794328, 509211324, 958968417, 1887072560, 2407404446, 2957516854, 1841616321,
   2375549477]"
    unfolding compress_def block_wrong schedule_wrong pairs foldl_append H256_def
      rounds_wrong_1 rounds_wrong_2 rounds_wrong_3 rounds_wrong_4 rounds_wrong_5 rounds_wrong_6 rounds_wrong_7 rounds_wrong_8
    by simp
  then show ?thesis
    by (simp add: sha256_def Let_def len blocks_of_one block_wrong hexdigest_def hex_word_def hex_digit_def)
qed

text \<open>
  C8. \<^verbatim>\<open>check_credentials\<close> is true exactly when the pair of the user name and the
  digest of the password is the pair of a stored row. After \<^verbatim>\<open>init_db\<close> on a
  store without users, \<^verbatim>\<open>admin\<close> with \<^verbatim>\<open>admin123\<close> is accepted and \<^verbatim>\<open>admin\<close> with
  \<^verbatim>\<open>wrong\<close> is not.
\<close>

theorem check_credentials_verifies:
  "check_credentials d usr password =
     ((usr, hexdigest (sha256 (encode password))) \<in>
        set (map (\<lambda>u. (username u, password_hash u)) (users d))) \<and>
   check_credentials (init_db (d\<lparr>users := []\<rparr>)) ''admin'' ''admin123'' = True \<and>
   check_credentials (init_db (d\<lparr>users := []\<rparr>)) ''admin'' ''wrong'' = False"
proof -
  have "check_credentials e a p \<longleftrightarrow>
        (\<exists>u \<in> set (users e). username u = a \<and>
           password_hash u = hexdigest (sha256 (encode p)))" for e a p
    unfolding check_credentials_def Let_def find_None_iff by blast
  then have gen: "check_credentials e a p =
     ((a, hexdigest (sha256 (encode p))) \<in>
        set (map (\<lambda>u. (username u, password_hash u)) (users e)))" for e a p
    by (auto simp: image_iff)
  have u: "users (init_db (d\<lparr>users := []\<rparr>)) =
     [\<lparr>user_id = 1, username = ''admin'',
       password_hash = hexdigest (sha256 (encode ''admin123''))\<rparr>]"
    by (simp add: init_db_def Let_def)
  have ne: "hexdigest (sha256 (encode ''wrong'')) \<noteq> hexdigest (sha256 (encode ''admin123''))"
    by (simp add: digest_admin123 digest_wrong)
  show ?thesis
    using ne by (simp add: gen u)
qed

end
